theory Spec2Isabelle
  imports Main "HOL-Library.Word"
begin

section \<open>The cuFFT plan wrapper and the CUDA coordinate helpers\<close>

text \<open>
  A shallow embedding of \<^verbatim>\<open>include/glados/cufft/plan.h\<close> (the class template
  \<^verbatim>\<open>glados::cufft::plan<type>\<close>) and of \<^verbatim>\<open>include/ddrf/cuda/coordinates.h\<close>.

  The class is a proxy for the cuFFT library. Three things are made explicit:
  \<^item> the compile-time part (the specialisations of \<^verbatim>\<open>type_chooser\<close> and
    \<^verbatim>\<open>type_mapper\<close>, the static assertions, the overload resolution of
    \<^verbatim>\<open>cufft_exec\<close>) is a function from the template arguments to either a list of
    diagnostics or the native routine the call was resolved to;
  \<^item> the objects live in a store indexed by address, because the assignment operators
    take a reference that may be the assigned object itself;
  \<^item> the native library is a parameter: a function giving, for every call and the
    calls made before it, the status returned and the identifier written through the
    out-pointer. Every native call is appended to a trace.
\<close>

subsection \<open>Types of the native interface\<close>

text \<open>C's \<^verbatim>\<open>int\<close> and \<^verbatim>\<open>unsigned int\<close> are 32 bits wide; \<^verbatim>\<open>cufftHandle\<close> is an \<^verbatim>\<open>int\<close>.\<close>

type_synonym c_int = "32 word"
type_synonym c_uint = "32 word"
type_synonym cufftHandle = c_int
type_synonym addr = nat
type_synonym cudaStream_t = nat

text \<open>The six transform kinds, \<^verbatim>\<open>enum cufftType\<close>.\<close>

datatype cufftType = CUFFT_R2C | CUFFT_C2R | CUFFT_C2C | CUFFT_D2Z | CUFFT_Z2D | CUFFT_Z2Z

text \<open>
  The element types a template argument \<^verbatim>\<open>I\<close> or \<^verbatim>\<open>O\<close> can be: the four cuFFT
  element types, which are pairwise distinct C++ types, and every other type.
\<close>

datatype ctype = cufftReal | cufftComplex | cufftDoubleReal | cufftDoubleComplex
  | other_type nat

text \<open>
  \<^verbatim>\<open>enum cufftResult\<close>: the eight enumerators that \<^verbatim>\<open>handle_result\<close> names, and
  \<^verbatim>\<open>CUFFT_OTHER n\<close> for every other value of the enumeration (the library's header
  declares more of them than the switch lists; they all reach \<^verbatim>\<open>default\<close>).
\<close>

datatype cufftResult =
    CUFFT_SUCCESS
  | CUFFT_INVALID_PLAN
  | CUFFT_ALLOC_FAILED
  | CUFFT_INVALID_VALUE
  | CUFFT_INTERNAL_ERROR
  | CUFFT_EXEC_FAILED
  | CUFFT_SETUP_FAILED
  | CUFFT_INVALID_SIZE
  | CUFFT_OTHER nat

text \<open>The exceptions of \<^verbatim>\<open>glados/cufft/exception.h\<close> that the class throws.\<close>

datatype exception = invalid_argument string | bad_alloc | runtime_error string

type_synonym 'a result = "exception + 'a"

subsection \<open>Status translation\<close>

text \<open>\<^verbatim>\<open>plan::handle_result\<close>: the switch, case by case; a \<^verbatim>\<open>throw\<close> is \<open>Inl\<close>.\<close>

fun handle_result :: "cufftResult \<Rightarrow> unit result" where
  "handle_result CUFFT_SUCCESS = Inr ()"
| "handle_result CUFFT_INVALID_PLAN =
     Inl (invalid_argument ''The plan parameter is not a valid handle.'')"
| "handle_result CUFFT_ALLOC_FAILED = Inl bad_alloc"
| "handle_result CUFFT_INVALID_VALUE =
     Inl (invalid_argument ''One or more invalid parameters were passed to the API.'')"
| "handle_result CUFFT_INTERNAL_ERROR =
     Inl (runtime_error ''An internal driver error was detected.'')"
| "handle_result CUFFT_EXEC_FAILED =
     Inl (runtime_error ''cuFFT failed to execute the transform on the GPU.'')"
| "handle_result CUFFT_SETUP_FAILED =
     Inl (runtime_error ''The cuFFT library failed to initialize.'')"
| "handle_result CUFFT_INVALID_SIZE =
     Inl (invalid_argument ''One or more of the parameters is not a supported size.'')"
| "handle_result (CUFFT_OTHER n) = Inl (runtime_error ''Unknown error.'')"

text \<open>The three error kinds of the specification, read off the exception's class.\<close>

datatype error_kind = InvalidArgument | AllocationFailure | RuntimeError

fun kind_of :: "exception \<Rightarrow> error_kind" where
  "kind_of (invalid_argument msg) = InvalidArgument"
| "kind_of bad_alloc = AllocationFailure"
| "kind_of (runtime_error msg) = RuntimeError"

subsection \<open>Compile-time dispatch\<close>

text \<open>
  \<^verbatim>\<open>detail::type_chooser<I, O>::value\<close>. The primary template has no member
  \<^verbatim>\<open>value\<close>: naming it for a pair without a specialisation is ill-formed (\<open>None\<close>).
\<close>

fun type_chooser :: "ctype \<Rightarrow> ctype \<Rightarrow> cufftType option" where
  "type_chooser cufftReal cufftComplex = Some CUFFT_R2C"
| "type_chooser cufftComplex cufftReal = Some CUFFT_C2R"
| "type_chooser cufftComplex cufftComplex = Some CUFFT_C2C"
| "type_chooser cufftDoubleReal cufftDoubleComplex = Some CUFFT_D2Z"
| "type_chooser cufftDoubleComplex cufftDoubleReal = Some CUFFT_Z2D"
| "type_chooser cufftDoubleComplex cufftDoubleComplex = Some CUFFT_Z2Z"
| "type_chooser In Out = None"

text \<open>\<^verbatim>\<open>detail::type_mapper<I>::type\<close>, ill-formed likewise without a specialisation.\<close>

fun type_mapper :: "ctype \<Rightarrow> ctype option" where
  "type_mapper cufftReal = Some cufftComplex"
| "type_mapper cufftComplex = Some cufftReal"
| "type_mapper cufftDoubleReal = Some cufftDoubleComplex"
| "type_mapper cufftDoubleComplex = Some cufftDoubleReal"
| "type_mapper In = None"

text \<open>The native execute routines that the overloads of \<^verbatim>\<open>cufft_exec\<close> call.\<close>

datatype exec_routine =
  cufftExecC2C | cufftExecZ2Z | cufftExecR2C | cufftExecD2Z | cufftExecC2R | cufftExecZ2D

text \<open>
  Overload resolution of \<^verbatim>\<open>cufft_exec(idata, odata)\<close> on an \<^verbatim>\<open>I*\<close> and an
  \<^verbatim>\<open>O*\<close>, for the element types that pass the static assertions: a pointer to one
  of the four cuFFT element types converts to a pointer to no other of them, so an
  overload is chosen on an exact match. \<open>None\<close>: no matching function.
\<close>

fun cufft_exec2_overload :: "ctype \<Rightarrow> ctype \<Rightarrow> exec_routine option" where
  "cufft_exec2_overload cufftReal cufftComplex = Some cufftExecR2C"
| "cufft_exec2_overload cufftDoubleReal cufftDoubleComplex = Some cufftExecD2Z"
| "cufft_exec2_overload cufftComplex cufftReal = Some cufftExecC2R"
| "cufft_exec2_overload cufftDoubleComplex cufftDoubleReal = Some cufftExecZ2D"
| "cufft_exec2_overload In Out = None"

text \<open>The same for \<^verbatim>\<open>cufft_exec(idata, odata, direction)\<close>.\<close>

fun cufft_exec3_overload :: "ctype \<Rightarrow> ctype \<Rightarrow> exec_routine option" where
  "cufft_exec3_overload cufftComplex cufftComplex = Some cufftExecC2C"
| "cufft_exec3_overload cufftDoubleComplex cufftDoubleComplex = Some cufftExecZ2Z"
| "cufft_exec3_overload In Out = None"

text \<open>What the compiler reports when it instantiates a member template.\<close>

datatype diagnostic =
    needs_direction \<comment> \<open>Plan needs a direction for transformations between the same types.\<close>
  | implicitly_inverse \<comment> \<open>Transformations between different types are implicitly inverse\<close>
  | other_types \<comment> \<open>This plan can not be used for other types than originally specified.\<close>
  | incompatible_type \<comment> \<open>Attempt to transform to an incompatible type.\<close>
  | no_member_value \<comment> \<open>no member \<^verbatim>\<open>value\<close> in \<^verbatim>\<open>type_chooser<I, O>\<close>\<close>
  | no_member_type \<comment> \<open>no member \<^verbatim>\<open>type\<close> in \<^verbatim>\<open>type_mapper<I>\<close>\<close>
  | no_matching_function \<comment> \<open>no overload of \<^verbatim>\<open>cufft_exec\<close> takes these pointers\<close>

text \<open>
  The second and the third static assertion are the same in both overloads of
  \<^verbatim>\<open>execute\<close>; \<open>type\<close> is the template argument of the class.
\<close>

definition assert_chooser :: "cufftType \<Rightarrow> ctype \<Rightarrow> ctype \<Rightarrow> diagnostic list" where
  "assert_chooser type In Out =
     (case type_chooser In Out of
        None \<Rightarrow> [no_member_value]
      | Some v \<Rightarrow> if v = type then [] else [other_types])"

definition assert_mapper :: "ctype \<Rightarrow> ctype \<Rightarrow> diagnostic list" where
  "assert_mapper In Out =
     (case type_mapper In of
        None \<Rightarrow> [no_member_type]
      | Some t \<Rightarrow> if Out = t then [] else [incompatible_type])"

text \<open>
  Instantiating \<^verbatim>\<open>plan<type>::execute<I, O>(I*, O*)\<close>: the diagnostics of the three
  static assertions, in the order of the source. With none, the call in the body is
  resolved, and the member is a call of the routine returned.
\<close>

definition execute_asserts :: "cufftType \<Rightarrow> ctype \<Rightarrow> ctype \<Rightarrow> diagnostic list" where
  "execute_asserts type In Out =
     (if In \<noteq> Out then [] else [needs_direction])
     @ assert_chooser type In Out
     @ assert_mapper In Out"

definition execute_compile :: "cufftType \<Rightarrow> ctype \<Rightarrow> ctype \<Rightarrow> diagnostic list + exec_routine" where
  "execute_compile type In Out =
     (case execute_asserts type In Out of
        [] \<Rightarrow> (case cufft_exec2_overload In Out of
                 None \<Rightarrow> Inl [no_matching_function]
               | Some r \<Rightarrow> Inr r)
      | d # ds \<Rightarrow> Inl (d # ds))"

text \<open>Instantiating \<^verbatim>\<open>plan<type>::execute<I, O>(I*, O*, int)\<close>.\<close>

definition execute_direction_asserts :: "cufftType \<Rightarrow> ctype \<Rightarrow> ctype \<Rightarrow> diagnostic list" where
  "execute_direction_asserts type In Out =
     (if In = Out then [] else [implicitly_inverse])
     @ assert_chooser type In Out
     @ assert_mapper In Out"

definition execute_direction_compile ::
  "cufftType \<Rightarrow> ctype \<Rightarrow> ctype \<Rightarrow> diagnostic list + exec_routine" where
  "execute_direction_compile type In Out =
     (case execute_direction_asserts type In Out of
        [] \<Rightarrow> (case cufft_exec3_overload In Out of
                 None \<Rightarrow> Inl [no_matching_function]
               | Some r \<Rightarrow> Inr r)
      | d # ds \<Rightarrow> Inl (d # ds))"

text \<open>
  The routine of the cuFFT interface that executes a plan of each kind, by the
  library's naming: the reference against which the dispatch is compared.
\<close>

fun native_routine :: "cufftType \<Rightarrow> exec_routine" where
  "native_routine CUFFT_R2C = cufftExecR2C"
| "native_routine CUFFT_C2R = cufftExecC2R"
| "native_routine CUFFT_C2C = cufftExecC2C"
| "native_routine CUFFT_D2Z = cufftExecD2Z"
| "native_routine CUFFT_Z2D = cufftExecZ2D"
| "native_routine CUFFT_Z2Z = cufftExecZ2Z"

subsection \<open>Objects, the native library and the trace\<close>

text \<open>
  The data members, in the order of their declaration: \<^verbatim>\<open>bool valid_ = false\<close> and
  \<^verbatim>\<open>cufftHandle handle_ = 0\<close> (the fields drop the trailing underscore of the
  source, which a name cannot end with here). The template argument \<open>type\<close> is not
  stored: it is a parameter of the operations that use it.
\<close>

record plan =
  valid :: bool
  handle :: cufftHandle

definition transformation_type :: "cufftType \<Rightarrow> cufftType" where
  "transformation_type type = type"

text \<open>
  The calls into cuFFT with their arguments, the out-pointer \<^verbatim>\<open>&handle_\<close> apart.
  Arrays and buffers are passed on as addresses. \<open>cufftExec r h idata odata dir\<close> is
  a call of the execute routine \<open>r\<close>, with a direction for the two routines that
  take one.
\<close>

datatype native_call =
    cufftPlan1d c_int cufftType c_int
  | cufftPlan2d c_int c_int cufftType
  | cufftPlan3d c_int c_int c_int cufftType
  | cufftPlanMany c_int addr addr c_int c_int addr c_int c_int cufftType c_int
  | cufftDestroy cufftHandle
  | cufftSetStream cufftHandle cudaStream_t
  | cufftExec exec_routine cufftHandle addr addr "c_int option"

record world =
  heap :: "addr \<Rightarrow> plan"
  calls :: "native_call list"

text \<open>
  The library: for the calls made so far and the next call, the status it returns and
  the identifier it stores through the out-pointer, if it stores one.
\<close>

type_synonym cufft_lib = "native_call list \<Rightarrow> native_call \<Rightarrow> cufftResult \<times> cufftHandle option"

definition record_call :: "native_call \<Rightarrow> world \<Rightarrow> world" where
  "record_call c w = w\<lparr>calls := calls w @ [c]\<rparr>"

definition native :: "cufft_lib \<Rightarrow> native_call \<Rightarrow> world \<Rightarrow> (cufftResult \<times> cufftHandle option) \<times> world" where
  "native lib c w = (lib (calls w) c, record_call c w)"

definition set_valid :: "addr \<Rightarrow> bool \<Rightarrow> world \<Rightarrow> world" where
  "set_valid this b w = w\<lparr>heap := (heap w)(this := (heap w this)\<lparr>valid := b\<rparr>)\<rparr>"

definition set_handle :: "addr \<Rightarrow> cufftHandle \<Rightarrow> world \<Rightarrow> world" where
  "set_handle this h w = w\<lparr>heap := (heap w)(this := (heap w this)\<lparr>handle := h\<rparr>)\<rparr>"

subsection \<open>Constructors, assignment, destructor\<close>

text \<open>\<^verbatim>\<open>plan() noexcept = default\<close>: the default member initialisers.\<close>

definition plan_default :: "addr \<Rightarrow> world \<Rightarrow> world" where
  "plan_default this w = set_handle this 0 (set_valid this False w)"

text \<open>
  The body shared by the four sizing constructors: \<^verbatim>\<open>valid_{true}\<close>, the default
  initialiser of \<^verbatim>\<open>handle_\<close>, the native creation call writing \<^verbatim>\<open>handle_\<close>, and
  \<^verbatim>\<open>handle_result\<close> on its status.
\<close>

definition create :: "cufft_lib \<Rightarrow> addr \<Rightarrow> native_call \<Rightarrow> world \<Rightarrow> unit result \<times> world" where
  "create lib this c w =
     (let w1 = set_handle this 0 (set_valid this True w);
          (reply, w2) = native lib c w1;
          w3 = (case snd reply of None \<Rightarrow> w2 | Some h \<Rightarrow> set_handle this h w2)
      in (handle_result (fst reply), w3))"

definition plan_1d :: "cufft_lib \<Rightarrow> cufftType \<Rightarrow> addr \<Rightarrow> c_int \<Rightarrow> world \<Rightarrow> unit result \<times> world" where
  "plan_1d lib type this nx w =
     create lib this (cufftPlan1d nx (transformation_type type) 1) w"

definition plan_2d :: "cufft_lib \<Rightarrow> cufftType \<Rightarrow> addr \<Rightarrow> c_int \<Rightarrow> c_int \<Rightarrow> world \<Rightarrow> unit result \<times> world" where
  "plan_2d lib type this nx ny w =
     create lib this (cufftPlan2d nx ny (transformation_type type)) w"

definition plan_3d ::
  "cufft_lib \<Rightarrow> cufftType \<Rightarrow> addr \<Rightarrow> c_int \<Rightarrow> c_int \<Rightarrow> c_int \<Rightarrow> world \<Rightarrow> unit result \<times> world" where
  "plan_3d lib type this nx ny nz w =
     create lib this (cufftPlan3d nx ny nz (transformation_type type)) w"

definition plan_many ::
  "cufft_lib \<Rightarrow> cufftType \<Rightarrow> addr \<Rightarrow> c_int \<Rightarrow> addr \<Rightarrow> addr \<Rightarrow> c_int \<Rightarrow> c_int \<Rightarrow>
     addr \<Rightarrow> c_int \<Rightarrow> c_int \<Rightarrow> c_int \<Rightarrow> world \<Rightarrow> unit result \<times> world" where
  "plan_many lib type this rank n inembed istride idist onembed ostride odist batch w =
     create lib this
       (cufftPlanMany rank n inembed istride idist onembed ostride odist
          (transformation_type type) batch) w"

text \<open>
  \<^verbatim>\<open>plan(const plan& other)\<close>. Members are initialised in the order of their
  declaration, \<^verbatim>\<open>valid_\<close> first.
\<close>

definition plan_copy :: "addr \<Rightarrow> addr \<Rightarrow> world \<Rightarrow> world" where
  "plan_copy this other w =
     (let w1 = set_valid this (valid (heap w other)) w;
          w2 = set_handle this (handle (heap w1 other)) w1
      in w2)"

text \<open>\<^verbatim>\<open>operator=(const plan& other)\<close>, statement by statement.\<close>

definition copy_assign :: "addr \<Rightarrow> addr \<Rightarrow> world \<Rightarrow> world" where
  "copy_assign this other w =
     (let w1 = set_handle this (handle (heap w other)) w;
          w2 = set_valid this (valid (heap w1 other)) w1
      in w2)"

text \<open>\<^verbatim>\<open>plan(plan&& other)\<close>: \<^verbatim>\<open>std::move\<close> of an \<^verbatim>\<open>int\<close> copies it.\<close>

definition plan_move :: "addr \<Rightarrow> addr \<Rightarrow> world \<Rightarrow> world" where
  "plan_move this other w =
     (let w1 = set_valid this (valid (heap w other)) w;
          w2 = set_handle this (handle (heap w1 other)) w1;
          w3 = set_valid other False w2
      in w3)"

text \<open>\<^verbatim>\<open>operator=(plan&& other)\<close>, statement by statement.\<close>

definition move_assign :: "addr \<Rightarrow> addr \<Rightarrow> world \<Rightarrow> world" where
  "move_assign this other w =
     (let w1 = set_handle this (handle (heap w other)) w;
          w2 = set_valid this (valid (heap w1 other)) w1;
          w3 = set_valid other False w2
      in w3)"

text \<open>\<^verbatim>\<open>~plan()\<close>: the status that \<^verbatim>\<open>cufftDestroy\<close> returns is discarded.\<close>

definition dtor :: "addr \<Rightarrow> world \<Rightarrow> world" where
  "dtor this w =
     (if valid (heap w this) then record_call (cufftDestroy (handle (heap w this))) w else w)"

definition get :: "addr \<Rightarrow> world \<Rightarrow> cufftHandle" where
  "get this w = handle (heap w this)"

definition set_stream :: "cufft_lib \<Rightarrow> addr \<Rightarrow> cudaStream_t \<Rightarrow> world \<Rightarrow> unit result \<times> world" where
  "set_stream lib this stream w =
     (let (reply, w1) = native lib (cufftSetStream (handle (heap w this)) stream) w
      in (handle_result (fst reply), w1))"

subsection \<open>Execution\<close>

text \<open>
  The six private overloads of \<^verbatim>\<open>cufft_exec\<close> have one body: the routine (chosen by
  overload resolution, above) is called on \<^verbatim>\<open>handle_\<close> and the two buffers, with the
  direction where there is one, and its status goes to \<^verbatim>\<open>handle_result\<close>.
\<close>

definition cufft_exec ::
  "cufft_lib \<Rightarrow> exec_routine \<Rightarrow> addr \<Rightarrow> addr \<Rightarrow> addr \<Rightarrow> c_int option \<Rightarrow> world \<Rightarrow> unit result \<times> world" where
  "cufft_exec lib r this idata odata direction w =
     (let (reply, w1) = native lib (cufftExec r (handle (heap w this)) idata odata direction) w
      in (handle_result (fst reply), w1))"

text \<open>
  \<^verbatim>\<open>execute(I* idata, O* odata)\<close>: a program with this call either does not compile
  (\<open>Inl\<close>, the diagnostics) or runs \<^verbatim>\<open>cufft_exec(idata, odata)\<close>.
\<close>

definition execute ::
  "cufft_lib \<Rightarrow> cufftType \<Rightarrow> ctype \<Rightarrow> ctype \<Rightarrow> addr \<Rightarrow> addr \<Rightarrow> addr \<Rightarrow> world
     \<Rightarrow> diagnostic list + unit result \<times> world" where
  "execute lib type In Out this idata odata w =
     (case execute_compile type In Out of
        Inl ds \<Rightarrow> Inl ds
      | Inr r \<Rightarrow> Inr (cufft_exec lib r this idata odata None w))"

text \<open>\<^verbatim>\<open>execute(I* idata, O* odata, int direction)\<close>.\<close>

definition execute_direction ::
  "cufft_lib \<Rightarrow> cufftType \<Rightarrow> ctype \<Rightarrow> ctype \<Rightarrow> addr \<Rightarrow> addr \<Rightarrow> addr \<Rightarrow> c_int \<Rightarrow> world
     \<Rightarrow> diagnostic list + unit result \<times> world" where
  "execute_direction lib type In Out this idata odata direction w =
     (case execute_direction_compile type In Out of
        Inl ds \<Rightarrow> Inl ds
      | Inr r \<Rightarrow> Inr (cufft_exec lib r this idata odata (Some direction) w))"

subsection \<open>Thread coordinates\<close>

text \<open>
  The built-in variables \<^verbatim>\<open>blockIdx\<close>, \<^verbatim>\<open>blockDim\<close> and \<^verbatim>\<open>threadIdx\<close> of the
  executing thread; each component is an \<^verbatim>\<open>unsigned int\<close>.
\<close>

record thread_ctx =
  blockIdx_x :: c_uint
  blockIdx_y :: c_uint
  blockIdx_z :: c_uint
  blockDim_x :: c_uint
  blockDim_y :: c_uint
  blockDim_z :: c_uint
  threadIdx_x :: c_uint
  threadIdx_y :: c_uint
  threadIdx_z :: c_uint

definition coord_x :: "thread_ctx \<Rightarrow> c_uint" where
  "coord_x c = blockIdx_x c * blockDim_x c + threadIdx_x c"

definition coord_y :: "thread_ctx \<Rightarrow> c_uint" where
  "coord_y c = blockIdx_y c * blockDim_y c + threadIdx_y c"

definition coord_z :: "thread_ctx \<Rightarrow> c_uint" where
  "coord_z c = blockIdx_z c * blockDim_z c + threadIdx_z c"

text \<open>
  The concrete inputs used below: thread 0 of block
  \<open>2 ^ 22\<close> in a launch of blocks of 1024 threads, thread 5 of block 3 of the same
  extent in every axis; a store whose object 1 is a valid plan with identifier 42 and
  whose other objects are invalid with identifier 0; a library that reports success
  and stores the identifier 7, and one that reports a failed allocation and stores
  nothing; and a store with a second valid plan, object 2 with
  identifier 43.
\<close>

definition far_thread :: thread_ctx where
  "far_thread =
     \<lparr>blockIdx_x = 4194304, blockIdx_y = 0, blockIdx_z = 0,
      blockDim_x = 1024, blockDim_y = 1, blockDim_z = 1,
      threadIdx_x = 0, threadIdx_y = 0, threadIdx_z = 0\<rparr>"

definition near_thread :: thread_ctx where
  "near_thread =
     \<lparr>blockIdx_x = 3, blockIdx_y = 3, blockIdx_z = 3,
      blockDim_x = 8, blockDim_y = 8, blockDim_z = 8,
      threadIdx_x = 5, threadIdx_y = 5, threadIdx_z = 5\<rparr>"

definition one_plan :: world where
  "one_plan =
     \<lparr>heap = (\<lambda>a. if a = 1 then \<lparr>valid = True, handle = 42\<rparr> else \<lparr>valid = False, handle = 0\<rparr>),
      calls = []\<rparr>"

definition ok_lib :: cufft_lib where
  "ok_lib tr c = (CUFFT_SUCCESS, Some 7)"

definition exhausted_lib :: cufft_lib where
  "exhausted_lib tr c = (CUFFT_ALLOC_FAILED, None)"

definition two_plans :: world where
  "two_plans =
     \<lparr>heap = (\<lambda>a. if a = 1 then \<lparr>valid = True, handle = 42\<rparr>
                 else if a = 2 then \<lparr>valid = True, handle = 43\<rparr>
                 else \<lparr>valid = False, handle = 0\<rparr>),
      calls = []\<rparr>"

text \<open>
  The store after \<^verbatim>\<open>plan a(8); plan b(a);\<close>: objects 1 and 2 are both valid and
  hold the identifier 42.
\<close>

definition twin_plans :: world where
  "twin_plans =
     \<lparr>heap = (\<lambda>a. if a = 1 \<or> a = 2 then \<lparr>valid = True, handle = 42\<rparr>
                 else \<lparr>valid = False, handle = 0\<rparr>),
      calls = []\<rparr>"

subsection \<open>Status translation: theorems\<close>

lemma create_status:
  "fst (create lib this c w) = handle_result (fst (lib (calls w) c))
   \<and> calls (snd (create lib this c w)) = calls w @ [c]"
  by (simp add: create_def native_def set_valid_def set_handle_def record_call_def Let_def
        split: option.split prod.split)

lemma create_success:
  assumes "fst (lib (calls w) c) = CUFFT_SUCCESS"
  shows "fst (create lib this c w) = Inr ()
       \<and> valid (heap (snd (create lib this c w)) this)
       \<and> handle (heap (snd (create lib this c w)) this)
           = (case snd (lib (calls w) c) of None \<Rightarrow> 0 | Some h \<Rightarrow> h)
       \<and> calls (snd (create lib this c w)) = calls w @ [c]"
  using assms
  by (simp add: create_def native_def set_valid_def set_handle_def record_call_def Let_def
        split: option.split prod.split)

lemma set_stream_status:
  "set_stream lib this stream w =
     (handle_result (fst (lib (calls w) (cufftSetStream (handle (heap w this)) stream))),
      record_call (cufftSetStream (handle (heap w this)) stream) w)"
  by (simp add: set_stream_def native_def split: prod.split)

text \<open>
  C2. Success throws nothing. Every other status throws an exception of exactly one
  kind: invalid-plan, invalid-value and invalid-size give invalid-argument,
  allocation-failed gives allocation-failure, every remaining status (internal-error,
  exec-failed, setup-failed and any status the switch does not name) gives
  runtime-error, and a status the switch does not name gives the fallback
  runtime-error "Unknown error.". A sizing constructor surfaces the translation of
  the status its creation call returned.
\<close>

theorem handle_result_taxonomy:
  "map_sum kind_of id (handle_result res) =
     (if res = CUFFT_SUCCESS then Inr ()
      else if res = CUFFT_INVALID_PLAN \<or> res = CUFFT_INVALID_VALUE \<or> res = CUFFT_INVALID_SIZE
        then Inl InvalidArgument
      else if res = CUFFT_ALLOC_FAILED then Inl AllocationFailure
      else Inl RuntimeError)
   \<and> (handle_result res = Inr ()) = (res = CUFFT_SUCCESS)
   \<and> handle_result (CUFFT_OTHER n) = Inl (runtime_error ''Unknown error.'')
   \<and> fst (plan_1d lib type this nx w)
       = handle_result (fst (lib (calls w) (cufftPlan1d nx type 1)))
   \<and> fst (plan_2d lib type this nx ny w)
       = handle_result (fst (lib (calls w) (cufftPlan2d nx ny type)))
   \<and> fst (plan_3d lib type this nx ny nz w)
       = handle_result (fst (lib (calls w) (cufftPlan3d nx ny nz type)))
   \<and> fst (plan_many lib type this rank dims inembed istride idist onembed ostride odist batch w)
       = handle_result
           (fst (lib (calls w)
              (cufftPlanMany rank dims inembed istride idist onembed ostride odist type batch)))"
  by (cases res)
     (simp_all add: create_status plan_1d_def plan_2d_def plan_3d_def plan_many_def
        transformation_type_def)

theorem handle_result_taxonomy_witness:
  "map_sum kind_of id (handle_result CUFFT_ALLOC_FAILED) = Inl AllocationFailure
   \<and> map_sum kind_of id (handle_result CUFFT_ALLOC_FAILED) \<noteq> Inl RuntimeError
   \<and> handle_result (CUFFT_OTHER 9) = Inl (runtime_error ''Unknown error.'')
   \<and> fst (plan_1d exhausted_lib CUFFT_C2C 2 8 one_plan) = Inl bad_alloc"
  using handle_result_taxonomy [of CUFFT_ALLOC_FAILED 9 exhausted_lib CUFFT_C2C 2 8 one_plan]
  by (simp add: exhausted_lib_def)

subsection \<open>Compile-time dispatch: theorems\<close>

lemmas dispatch_defs =
  execute_compile_def execute_asserts_def execute_direction_compile_def
  execute_direction_asserts_def assert_chooser_def assert_mapper_def

text \<open>
  No instantiation of the overload with a direction compiles: its first assertion
  wants equal types, its third wants the output to be the counterpart of the input,
  and no type is its own counterpart.
\<close>

lemma execute_direction_never_compiles:
  "\<exists>d ds. execute_direction_compile type In Out = Inl (d # ds)"
  by (cases In; cases Out; cases type) (simp_all add: dispatch_defs)

text \<open>
  C1, the code at the call the claim is about. In a plan of kind complex to complex,
  \<^verbatim>\<open>execute(cufftComplex*, cufftComplex*, int)\<close> does not compile: the first two
  assertions hold and the third, "Attempt to transform to an incompatible type.",
  fails, the counterpart of \<^verbatim>\<open>cufftComplex\<close> being \<^verbatim>\<open>cufftReal\<close>. The same for
  double precision. Yet for these two pairs an overload of \<^verbatim>\<open>cufft_exec\<close> with a
  direction exists and would call \<^verbatim>\<open>cufftExecC2C\<close> and \<^verbatim>\<open>cufftExecZ2Z\<close>.
\<close>

theorem execute_direction_complex_rejected:
  "execute_direction_compile CUFFT_C2C cufftComplex cufftComplex = Inl [incompatible_type]
   \<and> execute_direction_compile CUFFT_Z2Z cufftDoubleComplex cufftDoubleComplex
       = Inl [incompatible_type]
   \<and> cufft_exec3_overload cufftComplex cufftComplex = Some (native_routine CUFFT_C2C)
   \<and> cufft_exec3_overload cufftDoubleComplex cufftDoubleComplex
       = Some (native_routine CUFFT_Z2Z)"
  by (simp add: dispatch_defs)

text \<open>
  C3. \<^verbatim>\<open>execute(I*, O*)\<close> compiles exactly when the two types differ, the pair is
  mapped to the kind of the plan, and the output type is the counterpart of the input
  type. It is rejected with at least one diagnostic otherwise. Where it compiles it is
  one call of the native routine of the plan's kind on the plan's identifier and the
  two buffers, without a direction, whose status goes through \<^verbatim>\<open>handle_result\<close>.
\<close>

theorem execute_accepts_iff:
  "execute_compile type In Out =
     (if In \<noteq> Out \<and> type_chooser In Out = Some type \<and> type_mapper In = Some Out
      then Inr (native_routine type)
      else Inl (execute_asserts type In Out))
   \<and> (execute_asserts type In Out = [])
       = (In \<noteq> Out \<and> type_chooser In Out = Some type \<and> type_mapper In = Some Out)
   \<and> execute lib type In Out this idata odata w =
     (if In \<noteq> Out \<and> type_chooser In Out = Some type \<and> type_mapper In = Some Out
      then Inr (handle_result
                  (fst (lib (calls w)
                     (cufftExec (native_routine type) (handle (heap w this)) idata odata None))),
                record_call
                  (cufftExec (native_routine type) (handle (heap w this)) idata odata None) w)
      else Inl (execute_asserts type In Out))"
  by (cases In; cases Out; cases type)
     (simp_all add: dispatch_defs execute_def cufft_exec_def native_def)

theorem execute_accepts_iff_witness:
  "execute_compile CUFFT_R2C cufftReal cufftComplex = Inr cufftExecR2C
   \<and> execute_compile CUFFT_C2C cufftComplex cufftComplex
       = Inl [needs_direction, incompatible_type]
   \<and> execute_compile CUFFT_R2C cufftComplex cufftReal = Inl [other_types]
   \<and> execute_compile CUFFT_R2C cufftReal cufftDoubleComplex
       = Inl [no_member_value, incompatible_type]"
  using execute_accepts_iff [of CUFFT_R2C cufftReal cufftComplex]
    execute_accepts_iff [of CUFFT_C2C cufftComplex cufftComplex]
    execute_accepts_iff [of CUFFT_R2C cufftComplex cufftReal]
    execute_accepts_iff [of CUFFT_R2C cufftReal cufftDoubleComplex]
  by (simp add: execute_asserts_def assert_chooser_def assert_mapper_def)

subsection \<open>Lifetime: theorems\<close>

lemmas lifecycle_defs =
  plan_default_def plan_copy_def copy_assign_def plan_move_def move_assign_def dtor_def
  get_def set_valid_def set_handle_def record_call_def

text \<open>
  Move-assigning a plan to itself, where source and destination are one object: the
  object ends invalid, and its identifier is released by no later destructor.
\<close>

lemma self_move_assign_invalidates:
  "\<not> valid (heap (move_assign this this w) this)
   \<and> handle (heap (move_assign this this w) this) = handle (heap w this)
   \<and> calls (dtor this (move_assign this this w)) = calls w"
  by (simp add: lifecycle_defs)

text \<open>
  C7. Whenever the native creation call reports success, each of the four sizing
  constructors returns without an exception and leaves the new plan valid; the call
  it made carries the kind \<open>type\<close> the plan was instantiated with, which is also
  the value of \<^verbatim>\<open>transformation_type\<close>.
\<close>

theorem sizing_constructors_valid:
  "transformation_type type = type
   \<and> (fst (lib (calls w) (cufftPlan1d nx type 1)) = CUFFT_SUCCESS \<longrightarrow>
        fst (plan_1d lib type this nx w) = Inr ()
        \<and> valid (heap (snd (plan_1d lib type this nx w)) this)
        \<and> calls (snd (plan_1d lib type this nx w)) = calls w @ [cufftPlan1d nx type 1])
   \<and> (fst (lib (calls w) (cufftPlan2d nx ny type)) = CUFFT_SUCCESS \<longrightarrow>
        fst (plan_2d lib type this nx ny w) = Inr ()
        \<and> valid (heap (snd (plan_2d lib type this nx ny w)) this)
        \<and> calls (snd (plan_2d lib type this nx ny w)) = calls w @ [cufftPlan2d nx ny type])
   \<and> (fst (lib (calls w) (cufftPlan3d nx ny nz type)) = CUFFT_SUCCESS \<longrightarrow>
        fst (plan_3d lib type this nx ny nz w) = Inr ()
        \<and> valid (heap (snd (plan_3d lib type this nx ny nz w)) this)
        \<and> calls (snd (plan_3d lib type this nx ny nz w)) = calls w @ [cufftPlan3d nx ny nz type])
   \<and> (fst (lib (calls w)
             (cufftPlanMany rank n inembed istride idist onembed ostride odist type batch))
         = CUFFT_SUCCESS \<longrightarrow>
        fst (plan_many lib type this rank n inembed istride idist onembed ostride odist batch w)
          = Inr ()
        \<and> valid (heap (snd (plan_many lib type this rank n inembed istride idist
                               onembed ostride odist batch w)) this)
        \<and> calls (snd (plan_many lib type this rank n inembed istride idist
                         onembed ostride odist batch w))
            = calls w
              @ [cufftPlanMany rank n inembed istride idist onembed ostride odist type batch])"
  by (simp add: transformation_type_def plan_1d_def plan_2d_def plan_3d_def plan_many_def
        create_success)

theorem sizing_constructors_valid_witness:
  "fst (ok_lib (calls one_plan) (cufftPlan1d 8 CUFFT_C2C 1)) = CUFFT_SUCCESS
   \<and> fst (ok_lib (calls one_plan) (cufftPlan2d 8 4 CUFFT_C2C)) = CUFFT_SUCCESS
   \<and> fst (ok_lib (calls one_plan) (cufftPlan3d 8 4 2 CUFFT_C2C)) = CUFFT_SUCCESS
   \<and> fst (ok_lib (calls one_plan) (cufftPlanMany 1 10 0 1 8 0 1 8 CUFFT_C2C 3)) = CUFFT_SUCCESS
   \<and> fst (plan_1d ok_lib CUFFT_C2C 2 8 one_plan) = Inr ()
   \<and> valid (heap (snd (plan_1d ok_lib CUFFT_C2C 2 8 one_plan)) 2)
   \<and> calls (snd (plan_1d ok_lib CUFFT_C2C 2 8 one_plan)) = [cufftPlan1d 8 CUFFT_C2C 1]
   \<and> valid (heap (snd (plan_2d ok_lib CUFFT_C2C 2 8 4 one_plan)) 2)
   \<and> valid (heap (snd (plan_3d ok_lib CUFFT_C2C 2 8 4 2 one_plan)) 2)
   \<and> valid (heap (snd (plan_many ok_lib CUFFT_C2C 2 1 10 0 1 8 0 1 8 3 one_plan)) 2)"
  using sizing_constructors_valid
    [of CUFFT_C2C ok_lib one_plan 8 2 4 2 1 10 0 1 8 0 1 8 3]
  by (simp add: ok_lib_def one_plan_def)

text \<open>
  C9. A default-constructed plan is invalid and holds the identifier 0, whatever its
  storage held before: \<^verbatim>\<open>get()\<close> returns 0, the constructor makes no native call,
  and neither does its destructor. The validity flag being false, every invariant of
  the form "valid only if a resource was acquired" holds of it.
\<close>

theorem default_plan_invalid:
  "\<not> valid (heap (plan_default this w) this)
   \<and> handle (heap (plan_default this w) this) = 0
   \<and> get this (plan_default this w) = 0
   \<and> calls (plan_default this w) = calls w
   \<and> calls (dtor this (plan_default this w)) = calls w"
  by (simp add: lifecycle_defs)

theorem default_plan_invalid_witness:
  "\<not> valid (heap (plan_default 1 one_plan) 1)
   \<and> get 1 (plan_default 1 one_plan) = 0
   \<and> calls (dtor 1 (plan_default 1 one_plan)) = []"
  using default_plan_invalid [of 1 one_plan] by (simp add: one_plan_def)

text \<open>
  C5. The destructor of a valid plan makes exactly one native call, the release of the
  identifier the plan holds; the destructor of a plan that is not valid makes none.
\<close>

theorem dtor_releases_once:
  "calls (dtor this w) =
     calls w @ (if valid (heap w this) then [cufftDestroy (handle (heap w this))] else [])
   \<and> heap (dtor this w) = heap w"
  by (simp add: lifecycle_defs)

theorem dtor_releases_once_witness:
  "calls (dtor 1 one_plan) = [cufftDestroy 42] \<and> calls (dtor 2 one_plan) = []"
  using dtor_releases_once [of 1 one_plan] dtor_releases_once [of 2 one_plan]
  by (simp add: one_plan_def)

text \<open>
  C4. Move-constructing a plan \<open>dst\<close> from a valid plan \<open>src\<close>, or move-assigning
  \<open>src\<close> to another plan \<open>dst\<close>, leaves \<open>src\<close> invalid and \<open>dst\<close> valid with the
  identifier \<open>src\<close> held; the move makes no native call, destroying \<open>src\<close>
  afterwards makes none, and destroying both releases the identifier once.
\<close>

theorem move_transfers_ownership:
  assumes "valid (heap w src)" and "dst \<noteq> src"
  shows "\<not> valid (heap (plan_move dst src w) src)
       \<and> valid (heap (plan_move dst src w) dst)
       \<and> handle (heap (plan_move dst src w) dst) = handle (heap w src)
       \<and> calls (plan_move dst src w) = calls w
       \<and> calls (dtor src (plan_move dst src w)) = calls w
       \<and> calls (dtor dst (dtor src (plan_move dst src w)))
           = calls w @ [cufftDestroy (handle (heap w src))]
       \<and> \<not> valid (heap (move_assign dst src w) src)
       \<and> valid (heap (move_assign dst src w) dst)
       \<and> handle (heap (move_assign dst src w) dst) = handle (heap w src)
       \<and> calls (move_assign dst src w) = calls w
       \<and> calls (dtor src (move_assign dst src w)) = calls w
       \<and> calls (dtor dst (dtor src (move_assign dst src w)))
           = calls w @ [cufftDestroy (handle (heap w src))]"
  using assms by (simp add: lifecycle_defs)

theorem move_transfers_ownership_witness:
  "valid (heap one_plan 1) \<and> (2::addr) \<noteq> 1
   \<and> \<not> valid (heap (plan_move 2 1 one_plan) 1)
   \<and> valid (heap (plan_move 2 1 one_plan) 2)
   \<and> handle (heap (plan_move 2 1 one_plan) 2) = 42
   \<and> calls (dtor 1 (plan_move 2 1 one_plan)) = []
   \<and> \<not> valid (heap (move_assign 2 1 one_plan) 1)
   \<and> valid (heap (move_assign 2 1 one_plan) 2)
   \<and> handle (heap (move_assign 2 1 one_plan) 2) = 42
   \<and> calls (dtor 1 (move_assign 2 1 one_plan)) = []"
proof -
  have v: "valid (heap one_plan 1)" by (simp add: one_plan_def)
  have d: "(2::addr) \<noteq> 1" by simp
  have h: "handle (heap one_plan 1) = 42" "calls one_plan = []"
    by (simp_all add: one_plan_def)
  show ?thesis using v d h move_transfers_ownership [OF v d] by simp
qed

text \<open>
  C6. Copy-constructing a plan \<open>dst\<close> from a valid plan \<open>src\<close>, or copy-assigning
  \<open>src\<close> to \<open>dst\<close>, leaves \<open>dst\<close> valid with the identifier of \<open>src\<close> and
  \<open>src\<close> as it was; no native call is made. Both then release that identifier:
  destroying the two makes two release calls on it.
\<close>

theorem copy_duplicates_release_right:
  assumes "valid (heap w src)"
  shows "valid (heap (plan_copy dst src w) dst)
       \<and> handle (heap (plan_copy dst src w) dst) = handle (heap w src)
       \<and> heap (plan_copy dst src w) src = heap w src
       \<and> calls (plan_copy dst src w) = calls w
       \<and> calls (dtor src (dtor dst (plan_copy dst src w)))
           = calls w @ [cufftDestroy (handle (heap w src)), cufftDestroy (handle (heap w src))]
       \<and> valid (heap (copy_assign dst src w) dst)
       \<and> handle (heap (copy_assign dst src w) dst) = handle (heap w src)
       \<and> heap (copy_assign dst src w) src = heap w src
       \<and> calls (copy_assign dst src w) = calls w
       \<and> calls (dtor src (dtor dst (copy_assign dst src w)))
           = calls w @ [cufftDestroy (handle (heap w src)), cufftDestroy (handle (heap w src))]"
  using assms by (cases "dst = src") (simp_all add: lifecycle_defs)

theorem copy_duplicates_release_right_witness:
  "valid (heap one_plan 1)
   \<and> valid (heap (plan_copy 2 1 one_plan) 2) \<and> valid (heap (plan_copy 2 1 one_plan) 1)
   \<and> handle (heap (plan_copy 2 1 one_plan) 2) = 42
   \<and> handle (heap (plan_copy 2 1 one_plan) 1) = 42
   \<and> calls (dtor 1 (dtor 2 (plan_copy 2 1 one_plan))) = [cufftDestroy 42, cufftDestroy 42]
   \<and> valid (heap (copy_assign 2 1 one_plan) 2) \<and> valid (heap (copy_assign 2 1 one_plan) 1)
   \<and> handle (heap (copy_assign 2 1 one_plan) 2) = 42
   \<and> calls (dtor 1 (dtor 2 (copy_assign 2 1 one_plan))) = [cufftDestroy 42, cufftDestroy 42]"
proof -
  have v: "valid (heap one_plan 1)" by (simp add: one_plan_def)
  have h: "handle (heap one_plan 1) = 42" "calls one_plan = []"
    by (simp_all add: one_plan_def)
  show ?thesis using v h copy_duplicates_release_right [OF v, of 2] by simp
qed

text \<open>
  C10 as stated fails where the source holds the identifier the target holds. Object 1
  is valid with identifier 42, and so is its copy, object 2. After copy-assigning or
  move-assigning object 2 to object 1, or copy-assigning object 1 to itself, object 1
  is still valid with 42 and its destructor releases 42: the resource it owned before
  the assignment is released through it.
\<close>

theorem assignment_release_counterexample:
  "valid (heap twin_plans 1)
   \<and> cufftDestroy (handle (heap twin_plans 1))
       \<in> set (calls (dtor 1 (copy_assign 1 2 twin_plans)))
   \<and> cufftDestroy (handle (heap twin_plans 1))
       \<in> set (calls (dtor 1 (move_assign 1 2 twin_plans)))
   \<and> cufftDestroy (handle (heap twin_plans 1))
       \<in> set (calls (dtor 1 (copy_assign 1 1 twin_plans)))
   \<and> calls (dtor 1 (copy_assign 1 2 twin_plans)) = [cufftDestroy 42]
   \<and> calls (dtor 1 (move_assign 1 2 twin_plans)) = [cufftDestroy 42]
   \<and> calls (dtor 1 (copy_assign 1 1 twin_plans)) = [cufftDestroy 42]"
  by (simp add: lifecycle_defs twin_plans_def)

text \<open>
  C10, amended. Copy-assignment and move-assignment make no native call, whatever the
  target held: they overwrite its identifier with the source's and its flag with the
  source's (move-assignment of a plan to itself leaves the flag false). In every later
  state in which the target is as the assignment left it, the target's destructor
  releases the source's identifier if the target was left valid, and nothing
  otherwise. So when the source holds another identifier than the target did, the
  identifier the target held is released neither by the assignment nor by that
  destructor.
\<close>

theorem assignment_makes_no_release:
  "calls (copy_assign this other w) = calls w
   \<and> handle (heap (copy_assign this other w) this) = handle (heap w other)
   \<and> valid (heap (copy_assign this other w) this) = valid (heap w other)
   \<and> calls (dtor this (copy_assign this other w))
       = calls w @ (if valid (heap w other) then [cufftDestroy (handle (heap w other))] else [])
   \<and> calls (move_assign this other w) = calls w
   \<and> handle (heap (move_assign this other w) this) = handle (heap w other)
   \<and> valid (heap (move_assign this other w) this) = (this \<noteq> other \<and> valid (heap w other))
   \<and> calls (dtor this (move_assign this other w))
       = calls w @ (if this \<noteq> other \<and> valid (heap w other)
                    then [cufftDestroy (handle (heap w other))] else [])
   \<and> (handle (heap w other) \<noteq> handle (heap w this) \<longrightarrow>
        cufftDestroy (handle (heap w this))
          \<notin> set (drop (length (calls w)) (calls (dtor this (copy_assign this other w))))
        \<and> cufftDestroy (handle (heap w this))
          \<notin> set (drop (length (calls w)) (calls (dtor this (move_assign this other w)))))
   \<and> (heap w1 this = heap (copy_assign this other w) this \<longrightarrow>
        calls (dtor this w1)
          = calls w1
            @ (if valid (heap w other) then [cufftDestroy (handle (heap w other))] else []))
   \<and> (heap w2 this = heap (move_assign this other w) this \<longrightarrow>
        calls (dtor this w2)
          = calls w2
            @ (if this \<noteq> other \<and> valid (heap w other)
               then [cufftDestroy (handle (heap w other))] else []))"
  by (cases "this = other") (simp_all add: lifecycle_defs)

theorem assignment_makes_no_release_witness:
  "valid (heap two_plans 2) \<and> handle (heap two_plans 1) \<noteq> handle (heap two_plans 2)
   \<and> heap (dtor 1 (copy_assign 2 1 two_plans)) 2 = heap (copy_assign 2 1 two_plans) 2
   \<and> heap (dtor 1 (move_assign 2 1 two_plans)) 2 = heap (move_assign 2 1 two_plans) 2
   \<and> calls (copy_assign 2 1 two_plans) = []
   \<and> handle (heap (copy_assign 2 1 two_plans) 2) = 42
   \<and> calls (dtor 2 (copy_assign 2 1 two_plans)) = [cufftDestroy 42]
   \<and> calls (move_assign 2 1 two_plans) = []
   \<and> handle (heap (move_assign 2 1 two_plans) 2) = 42
   \<and> calls (dtor 2 (move_assign 2 1 two_plans)) = [cufftDestroy 42]
   \<and> cufftDestroy 43 \<notin> set (calls (dtor 2 (copy_assign 2 1 two_plans)))
   \<and> cufftDestroy 43 \<notin> set (calls (dtor 2 (move_assign 2 1 two_plans)))
   \<and> calls (dtor 2 (dtor 1 (copy_assign 2 1 two_plans))) = [cufftDestroy 42, cufftDestroy 42]
   \<and> calls (dtor 2 (dtor 1 (move_assign 2 1 two_plans))) = [cufftDestroy 42]"
proof -
  have c: "heap (dtor 1 (copy_assign 2 1 two_plans)) 2 = heap (copy_assign 2 1 two_plans) 2"
    by (simp add: dtor_def record_call_def)
  have m: "heap (dtor 1 (move_assign 2 1 two_plans)) 2 = heap (move_assign 2 1 two_plans) 2"
    by (simp add: dtor_def record_call_def)
  have s: "calls (dtor 1 (copy_assign 2 1 two_plans)) = [cufftDestroy 42]"
    "calls (dtor 1 (move_assign 2 1 two_plans)) = []"
    by (simp_all add: lifecycle_defs two_plans_def)
  show ?thesis
    using c m s
      assignment_makes_no_release
        [where this = 2 and other = 1 and w = two_plans
           and ?w1.0 = "dtor 1 (copy_assign 2 1 two_plans)"
           and ?w2.0 = "dtor 1 (move_assign 2 1 two_plans)"]
    by (simp add: two_plans_def)
qed

subsection \<open>Thread coordinates: theorems\<close>

text \<open>
  C8 as stated, with the result read as a number, fails on the x axis once the product
  passes \<open>2 ^ 32\<close>: for thread 0 of block \<open>2 ^ 22\<close> with blocks of 1024 threads the
  helper returns 0, and the block index times the block extent plus the thread index
  is 4294967296.
\<close>

theorem coord_x_exact_counterexample:
  "unat (coord_x far_thread)
     \<noteq> unat (blockIdx_x far_thread) * unat (blockDim_x far_thread)
         + unat (threadIdx_x far_thread)
   \<and> unat (coord_x far_thread) = 0
   \<and> unat (blockIdx_x far_thread) * unat (blockDim_x far_thread)
         + unat (threadIdx_x far_thread) = 4294967296"
  by (simp add: coord_x_def far_thread_def)

text \<open>
  C8, amended. Each helper returns the block index times the block extent plus the
  thread index of its axis, reduced modulo \<open>2 ^ 32\<close> (the arithmetic of
  \<^verbatim>\<open>unsigned int\<close>): exactly that number when it is below \<open>2 ^ 32\<close>. The result
  depends on the three identifiers of its own axis only, and a helper, being a function
  of the thread's identifiers, changes nothing.
\<close>

theorem coord_modulo:
  "unat (coord_x c) = (unat (blockIdx_x c) * unat (blockDim_x c) + unat (threadIdx_x c)) mod 2 ^ 32
 \<and> unat (coord_y c) = (unat (blockIdx_y c) * unat (blockDim_y c) + unat (threadIdx_y c)) mod 2 ^ 32
 \<and> unat (coord_z c) = (unat (blockIdx_z c) * unat (blockDim_z c) + unat (threadIdx_z c)) mod 2 ^ 32
 \<and> (unat (blockIdx_x c) * unat (blockDim_x c) + unat (threadIdx_x c) < 2 ^ 32 \<longrightarrow>
      unat (coord_x c) = unat (blockIdx_x c) * unat (blockDim_x c) + unat (threadIdx_x c))
 \<and> (unat (blockIdx_y c) * unat (blockDim_y c) + unat (threadIdx_y c) < 2 ^ 32 \<longrightarrow>
      unat (coord_y c) = unat (blockIdx_y c) * unat (blockDim_y c) + unat (threadIdx_y c))
 \<and> (unat (blockIdx_z c) * unat (blockDim_z c) + unat (threadIdx_z c) < 2 ^ 32 \<longrightarrow>
      unat (coord_z c) = unat (blockIdx_z c) * unat (blockDim_z c) + unat (threadIdx_z c))
 \<and> coord_x (c\<lparr>blockIdx_y := a1, blockIdx_z := a2, blockDim_y := a3, blockDim_z := a4,
              threadIdx_y := a5, threadIdx_z := a6\<rparr>) = coord_x c
 \<and> coord_y (c\<lparr>blockIdx_x := a1, blockIdx_z := a2, blockDim_x := a3, blockDim_z := a4,
              threadIdx_x := a5, threadIdx_z := a6\<rparr>) = coord_y c
 \<and> coord_z (c\<lparr>blockIdx_x := a1, blockIdx_y := a2, blockDim_x := a3, blockDim_y := a4,
              threadIdx_x := a5, threadIdx_y := a6\<rparr>) = coord_z c"
  by (simp add: coord_x_def coord_y_def coord_z_def unat_word_ariths mod_simps)

theorem coord_modulo_witness:
  "unat (blockIdx_x near_thread) * unat (blockDim_x near_thread) + unat (threadIdx_x near_thread)
     < 2 ^ 32
   \<and> unat (blockIdx_y near_thread) * unat (blockDim_y near_thread) + unat (threadIdx_y near_thread)
     < 2 ^ 32
   \<and> unat (blockIdx_z near_thread) * unat (blockDim_z near_thread) + unat (threadIdx_z near_thread)
     < 2 ^ 32
   \<and> unat (coord_x near_thread) = 29 \<and> unat (coord_y near_thread) = 29
   \<and> unat (coord_z near_thread) = 29"
  using coord_modulo [of near_thread] by (simp add: near_thread_def)

end
